theory Spec2Isabelle
  imports Main "HOL-Library.Sublist" "HOL-Library.AList"
begin

section \<open>Values held by the record store\<close>

text \<open>
  A Python \<^verbatim>\<open>str\<close> is a sequence of Unicode code points, so it is a list of natural
  numbers; \<open>str\<close> turns a literal of the source into one.
\<close>

type_synonym str = "nat list"

definition str :: "string \<Rightarrow> str" where
  "str s = map of_char s"

text \<open>
  The store \<^verbatim>\<open>st.session_state.library\<close> holds whatever \<^verbatim>\<open>json.load\<close> returned, or the
  list the program built with \<^verbatim>\<open>append\<close>. A value is therefore a JSON value as Python
  represents it: \<^verbatim>\<open>None\<close>, a \<^verbatim>\<open>bool\<close>, an \<^verbatim>\<open>int\<close>, a \<^verbatim>\<open>str\<close>, a \<^verbatim>\<open>list\<close> or a \<^verbatim>\<open>dict\<close>
  with string keys. A dict keeps its keys in insertion order, so it is an association
  list. Floating-point numbers are left out: a file that holds one is beyond the model
  (see \<open>json_loads\<close>), and the program itself creates none.
\<close>

datatype json =
    JNull
  | JBool bool
  | JInt int
  | JStr str
  | JArr "json list"
  | JObj "(str \<times> json) list"

text \<open>Python's truth value of a value, as \<^verbatim>\<open>if not x\<close> and \<^verbatim>\<open>if x\<close> read it.\<close>

fun truthy :: "json \<Rightarrow> bool" where
  "truthy JNull = False"
| "truthy (JBool b) = b"
| "truthy (JInt n) = (n \<noteq> 0)"
| "truthy (JStr s) = (s \<noteq> [])"
| "truthy (JArr xs) = (xs \<noteq> [])"
| "truthy (JObj kvs) = (kvs \<noteq> [])"

text \<open>The exceptions the script can meet.\<close>

datatype py_error =
    AttributeError
  | IndexError
  | KeyError
  | TypeError
  | OSError
  | JSONDecodeError

section \<open>The text \<^verbatim>\<open>json.dump(..., indent=4)\<close> writes\<close>

text \<open>
  \<^verbatim>\<open>json.dump\<close> with \<^verbatim>\<open>indent=4\<close> and the default \<^verbatim>\<open>ensure_ascii=True\<close>: a string is
  written between double quotes, with the quote and the backslash escaped by a backslash,
  the control characters \<^verbatim>\<open>\b \f \n \r \t\<close> by their letter, and every other character
  outside the printable ASCII range (space to tilde) as \<^verbatim>\<open>\uxxxx\<close> in lower-case
  hexadecimal, a code point from \<^verbatim>\<open>0x10000\<close> on as the two escapes of its surrogate pair.
\<close>

definition hex_digit :: "nat \<Rightarrow> nat" where
  "hex_digit d = (if d < 10 then 48 + d else 87 + d)"

definition u_escape :: "nat \<Rightarrow> str" where
  "u_escape n =
     [0x5C, 0x75, hex_digit (n div 4096 mod 16), hex_digit (n div 256 mod 16),
      hex_digit (n div 16 mod 16), hex_digit (n mod 16)]"

definition escape_char :: "nat \<Rightarrow> str" where
  "escape_char c =
     (if c = 0x22 then [0x5C, 0x22]
      else if c = 0x5C then [0x5C, 0x5C]
      else if c = 0x0A then [0x5C, 0x6E]
      else if c = 0x0D then [0x5C, 0x72]
      else if c = 0x09 then [0x5C, 0x74]
      else if c = 0x08 then [0x5C, 0x62]
      else if c = 0x0C then [0x5C, 0x66]
      else if 0x20 \<le> c \<and> c \<le> 0x7E then [c]
      else if c < 0x10000 then u_escape c
      else u_escape (0xD800 + (c - 0x10000) div 1024 mod 1024) @
           u_escape (0xDC00 + (c - 0x10000) mod 1024))"

definition encode_str :: "str \<Rightarrow> str" where
  "encode_str s = [0x22] @ concat (map escape_char s) @ [0x22]"

text \<open>An \<^verbatim>\<open>int\<close> is written in decimal, with a minus sign when negative.\<close>

fun digits :: "nat \<Rightarrow> str" where
  "digits n = (if n < 10 then [48 + n] else digits (n div 10) @ [48 + n mod 10])"

declare digits.simps [simp del]

definition encode_int :: "int \<Rightarrow> str" where
  "encode_int i = (if i < 0 then 0x2D # digits (nat (- i)) else digits (nat i))"

text \<open>
  A line break followed by the indentation of nesting level \<open>l\<close>: four spaces for each
  level.
\<close>

definition newline_indent :: "nat \<Rightarrow> str" where
  "newline_indent l = 0x0A # replicate (4 * l) 0x20"

text \<open>
  The encoder at nesting level \<open>l\<close>. An empty list is \<^verbatim>\<open>[]\<close> and an empty dict is
  \<^verbatim>\<open>{}\<close>; otherwise every item starts a line of its own, one level deeper, items are
  separated by a comma, a key is followed by a colon and a space, and the closing bracket
  stands on a line of its own at level \<open>l\<close>.
\<close>

fun encode :: "nat \<Rightarrow> json \<Rightarrow> str"
  and encode_items :: "nat \<Rightarrow> json list \<Rightarrow> str"
  and encode_members :: "nat \<Rightarrow> (str \<times> json) list \<Rightarrow> str"
where
  "encode l JNull = str ''null''"
| "encode l (JBool b) = (if b then str ''true'' else str ''false'')"
| "encode l (JInt i) = encode_int i"
| "encode l (JStr s) = encode_str s"
| "encode l (JArr []) = str ''[]''"
| "encode l (JArr (x # xs)) =
     str ''['' @ newline_indent (Suc l) @ encode_items (Suc l) (x # xs) @ newline_indent l @ str '']''"
| "encode l (JObj []) = str ''{}''"
| "encode l (JObj (kv # kvs)) =
     str ''{'' @ newline_indent (Suc l) @ encode_members (Suc l) (kv # kvs) @ newline_indent l @ str ''}''"
| "encode_items l [] = []"
| "encode_items l [x] = encode l x"
| "encode_items l (x # y # ys) = encode l x @ str '','' @ newline_indent l @ encode_items l (y # ys)"
| "encode_members l [] = []"
| "encode_members l [(k, v)] = encode_str k @ str '': '' @ encode l v"
| "encode_members l ((k, v) # kv # kvs) =
     encode_str k @ str '': '' @ encode l v @ str '','' @ newline_indent l @ encode_members l (kv # kvs)"

definition json_dumps :: "json \<Rightarrow> str" where
  "json_dumps v = encode 0 v"

section \<open>The value \<^verbatim>\<open>json.load\<close> reads\<close>

text \<open>
  \<^verbatim>\<open>json.load\<close> on the text of the file. Whitespace is space, tab, line feed and
  carriage return.
\<close>

definition is_ws :: "nat \<Rightarrow> bool" where
  "is_ws c = (c = 0x20 \<or> c = 0x09 \<or> c = 0x0A \<or> c = 0x0D)"

definition skip_ws :: "str \<Rightarrow> str" where
  "skip_ws cs = dropWhile is_ws cs"

definition hex_val :: "nat \<Rightarrow> nat option" where
  "hex_val c =
     (if 48 \<le> c \<and> c \<le> 57 then Some (c - 48)
      else if 97 \<le> c \<and> c \<le> 102 then Some (c - 87)
      else if 65 \<le> c \<and> c \<le> 70 then Some (c - 55)
      else None)"

text \<open>The number four hexadecimal digits stand for.\<close>

definition hex4 :: "nat \<Rightarrow> nat \<Rightarrow> nat \<Rightarrow> nat \<Rightarrow> nat option" where
  "hex4 h1 h2 h3 h4 =
     (case (hex_val h1, hex_val h2, hex_val h3, hex_val h4) of
        (Some a, Some b, Some c, Some d) \<Rightarrow> Some (((a * 16 + b) * 16 + c) * 16 + d)
      | _ \<Rightarrow> None)"

text \<open>The character a backslash escape other than \<^verbatim>\<open>\u\<close> stands for.\<close>

definition unescape :: "nat \<Rightarrow> nat option" where
  "unescape e =
     (if e = 0x22 then Some 0x22
      else if e = 0x5C then Some 0x5C
      else if e = 0x2F then Some 0x2F
      else if e = 0x62 then Some 0x08
      else if e = 0x66 then Some 0x0C
      else if e = 0x6E then Some 0x0A
      else if e = 0x72 then Some 0x0D
      else if e = 0x74 then Some 0x09
      else None)"

definition push :: "nat \<Rightarrow> (str \<times> str) option \<Rightarrow> (str \<times> str) option" where
  "push c res = map_option (\<lambda>(s, r). (c # s, r)) res"

text \<open>
  The body of a string, read from just after the opening quote up to the closing quote
  (strict mode: a raw control character ends the parse with an error). An escape
  \<^verbatim>\<open>\uXXXX\<close> of a high surrogate that is followed by the escape of a low surrogate
  stands, together with it, for one code point from \<^verbatim>\<open>0x10000\<close> on.
\<close>

fun scanstring :: "str \<Rightarrow> (str \<times> str) option" where
  "scanstring [] = None"
| "scanstring (c # cs) =
     (if c = 0x22 then Some ([], cs)
      else if c = 0x5C then
        (case cs of
           [] \<Rightarrow> None
         | e # es \<Rightarrow>
             if e = 0x75 then
               (case es of
                  h1 # h2 # h3 # h4 # rest \<Rightarrow>
                    (case hex4 h1 h2 h3 h4 of
                       None \<Rightarrow> None
                     | Some uni \<Rightarrow>
                         if 0xD800 \<le> uni \<and> uni \<le> 0xDBFF then
                           (case rest of
                              b # u # g1 # g2 # g3 # g4 # rest2 \<Rightarrow>
                                if b = 0x5C \<and> u = 0x75 then
                                  (case hex4 g1 g2 g3 g4 of
                                     None \<Rightarrow> None
                                   | Some uni2 \<Rightarrow>
                                       if 0xDC00 \<le> uni2 \<and> uni2 \<le> 0xDFFF then
                                         push (0x10000 + ((uni - 0xD800) * 1024 + (uni2 - 0xDC00)))
                                           (scanstring rest2)
                                       else push uni (scanstring rest))
                                else push uni (scanstring rest)
                            | _ \<Rightarrow> push uni (scanstring rest))
                         else push uni (scanstring rest))
                | _ \<Rightarrow> None)
             else
               (case unescape e of
                  None \<Rightarrow> None
                | Some ch \<Rightarrow> push ch (scanstring es)))
      else if c < 0x20 then None
      else push c (scanstring cs))"

text \<open>
  A number: an optional minus sign, then either a single \<^verbatim>\<open>0\<close> or a digit from 1 to 9
  followed by as many digits as there are; then, optionally, a fraction (a point and at
  least one digit) and an exponent (\<^verbatim>\<open>e\<close> or \<^verbatim>\<open>E\<close>, an optional sign and at least one
  digit). A number with a fraction or an exponent is a float: \<open>match_number\<close> then gives
  \<open>None\<close> as its value, together with the text behind the number.
\<close>

definition is_digit :: "nat \<Rightarrow> bool" where
  "is_digit c = (48 \<le> c \<and> c \<le> 57)"

definition decimal :: "str \<Rightarrow> nat" where
  "decimal ds = foldl (\<lambda>a c. 10 * a + (c - 48)) 0 ds"

definition match_integer :: "str \<Rightarrow> (nat \<times> str) option" where
  "match_integer cs =
     (case cs of
        [] \<Rightarrow> None
      | d # r \<Rightarrow>
          if d = 0x30 then Some (0, r)
          else if is_digit d then Some (decimal (takeWhile is_digit cs), dropWhile is_digit cs)
          else None)"

definition match_fraction :: "str \<Rightarrow> str option" where
  "match_fraction cs =
     (case cs of
        dot # d # r \<Rightarrow> if dot = 0x2E \<and> is_digit d then Some (dropWhile is_digit r) else None
      | _ \<Rightarrow> None)"

definition match_exponent :: "str \<Rightarrow> str option" where
  "match_exponent cs =
     (case cs of
        [] \<Rightarrow> None
      | e # r \<Rightarrow>
          if e = 0x65 \<or> e = 0x45 then
            (case (case r of [] \<Rightarrow> [] | sg # r2 \<Rightarrow> if sg = 0x2B \<or> sg = 0x2D then r2 else r) of
               [] \<Rightarrow> None
             | d # r3 \<Rightarrow> if is_digit d then Some (dropWhile is_digit r3) else None)
          else None)"

definition match_number :: "str \<Rightarrow> (int option \<times> str) option" where
  "match_number cs =
     (let negative = (case cs of [] \<Rightarrow> False | c # r \<Rightarrow> c = 0x2D);
          cs1 = (if negative then tl cs else cs)
      in case match_integer cs1 of
           None \<Rightarrow> None
         | Some (n, r1) \<Rightarrow>
             (case match_fraction r1 of
                Some r2 \<Rightarrow>
                  (case match_exponent r2 of Some r3 \<Rightarrow> Some (None, r3) | None \<Rightarrow> Some (None, r2))
              | None \<Rightarrow>
                  (case match_exponent r1 of
                     Some r3 \<Rightarrow> Some (None, r3)
                   | None \<Rightarrow> Some (Some (if negative then - int n else int n), r1))))"

text \<open>
  \<^verbatim>\<open>dict(pairs)\<close>: a key that comes again keeps its place and takes the later value.
\<close>

definition dict_of_pairs :: "(str \<times> json) list \<Rightarrow> (str \<times> json) list" where
  "dict_of_pairs kvs = foldl (\<lambda>d (k, v). AList.update k v d) [] kvs"

text \<open>
  A scanned value is \<open>None\<close> when it is, or has inside, a float (a number with a fraction
  or an exponent, \<^verbatim>\<open>NaN\<close>, \<^verbatim>\<open>Infinity\<close>, \<^verbatim>\<open>-Infinity\<close>): the scanner goes on behind it, since
  the rest of the text decides whether Python raises an error.
\<close>

definition cons_opt :: "'a option \<Rightarrow> 'a list option \<Rightarrow> 'a list option" where
  "cons_opt x xs = (case x of None \<Rightarrow> None | Some a \<Rightarrow> map_option ((#) a) xs)"

text \<open>
  The scanner. Its result is \<open>None\<close> where Python raises \<^verbatim>\<open>JSONDecodeError\<close>. The first
  argument bounds the number of nested calls; \<open>json_loads\<close> gives it more than the length
  of the text. \<open>scan_array\<close> and \<open>scan_object\<close> start at the first item, after the opening
  bracket and the whitespace behind it, and end behind the closing bracket.
\<close>

fun scan_once :: "nat \<Rightarrow> str \<Rightarrow> (json option \<times> str) option"
  and scan_array :: "nat \<Rightarrow> str \<Rightarrow> (json list option \<times> str) option"
  and scan_object :: "nat \<Rightarrow> str \<Rightarrow> ((str \<times> json) list option \<times> str) option"
where
  "scan_once 0 cs = None"
| "scan_once (Suc n) [] = None"
| "scan_once (Suc n) (c # cs) =
     (if c = 0x22 then map_option (\<lambda>(s, r). (Some (JStr s), r)) (scanstring cs)
      else if c = 0x7B then
        (case skip_ws cs of
           [] \<Rightarrow> None
         | d # r \<Rightarrow>
             if d = 0x7D then Some (Some (JObj []), r)
             else map_option (\<lambda>(kvs, r'). (map_option (\<lambda>ps. JObj (dict_of_pairs ps)) kvs, r'))
                    (scan_object n (d # r)))
      else if c = 0x5B then
        (case skip_ws cs of
           [] \<Rightarrow> None
         | d # r \<Rightarrow>
             if d = 0x5D then Some (Some (JArr []), r)
             else map_option (\<lambda>(xs, r'). (map_option JArr xs, r')) (scan_array n (d # r)))
      else if take 4 (c # cs) = str ''null'' then Some (Some JNull, drop 4 (c # cs))
      else if take 4 (c # cs) = str ''true'' then Some (Some (JBool True), drop 4 (c # cs))
      else if take 5 (c # cs) = str ''false'' then Some (Some (JBool False), drop 5 (c # cs))
      else
        (case match_number (c # cs) of
           Some (i, r) \<Rightarrow> Some (map_option JInt i, r)
         | None \<Rightarrow>
             if take 3 (c # cs) = str ''NaN'' then Some (None, drop 3 (c # cs))
             else if take 8 (c # cs) = str ''Infinity'' then Some (None, drop 8 (c # cs))
             else if take 9 (c # cs) = str ''-Infinity'' then Some (None, drop 9 (c # cs))
             else None))"
| "scan_array 0 cs = None"
| "scan_array (Suc n) cs =
     (case scan_once n cs of
        None \<Rightarrow> None
      | Some (v, r) \<Rightarrow>
          (case skip_ws r of
             [] \<Rightarrow> None
           | d # r' \<Rightarrow>
               if d = 0x5D then Some (cons_opt v (Some []), r')
               else if d = 0x2C then
                 map_option (\<lambda>(vs, r''). (cons_opt v vs, r'')) (scan_array n (skip_ws r'))
               else None))"
| "scan_object 0 cs = None"
| "scan_object (Suc n) cs =
     (case cs of
        [] \<Rightarrow> None
      | q # cs1 \<Rightarrow>
          if q \<noteq> 0x22 then None
          else
            (case scanstring cs1 of
               None \<Rightarrow> None
             | Some (k, r) \<Rightarrow>
                 (case skip_ws r of
                    [] \<Rightarrow> None
                  | colon # r1 \<Rightarrow>
                      if colon \<noteq> 0x3A then None
                      else
                        (case scan_once n (skip_ws r1) of
                           None \<Rightarrow> None
                         | Some (v, r2) \<Rightarrow>
                             (case skip_ws r2 of
                                [] \<Rightarrow> None
                              | d # r3 \<Rightarrow>
                                  if d = 0x7D then
                                    Some (cons_opt (map_option (Pair k) v) (Some []), r3)
                                  else if d = 0x2C then
                                    map_option
                                      (\<lambda>(kvs, r4). (cons_opt (map_option (Pair k) v) kvs, r4))
                                      (scan_object n (skip_ws r3))
                                  else None)))))"



section \<open>What the script shows, and the state it runs on\<close>

text \<open>
  A message is text with holes: \<open>Lit\<close> is literal text of the source, \<open>Fmt v\<close> a value
  formatted into an f-string and \<open>Exn e\<close> the text of an exception.

  A table cell holds a value, or pandas' missing-value marker \<^verbatim>\<open>NaN\<close>, or is \<open>Unmodelled\<close>:
  pandas puts a value there that this model does not determine (see \<open>frame_cell\<close>). A
  \<^verbatim>\<open>DataFrame\<close> is a number of rows and a list of named columns.
\<close>

datatype piece = Lit string | Fmt json | Exn py_error

datatype cell = Val json | NaN | Unmodelled

record frame =
  nrows :: nat
  columns :: "(str \<times> cell list) list"

text \<open>
  The calls to Streamlit, in the order in which the script makes them. \<open>Dataframe df\<close> is
  the call \<^verbatim>\<open>st.dataframe(df)\<close>; how Streamlit draws the frame is not modelled.
\<close>

datatype ui =
    Header string
  | Subheader string
  | Success "piece list"
  | Failure "piece list"
  | Warning string
  | Info string
  | Metric string json
  | Dataframe frame
  | BarChart "(json \<times> nat) list"

text \<open>
  The state: the record store of the session, and the file \<^verbatim>\<open>library.txt\<close>, given by its
  text (\<open>None\<close> when it does not exist), together with whether the operating system lets
  the script open it for reading and for writing.
\<close>

record state =
  library :: json
  library_file :: "str option"
  readable :: bool
  writable :: bool

text \<open>
  One run of a page: the state it leaves, what it showed, and the exception that ended
  it, if one did (Streamlit shows the exception; the session state stays as it was at
  that moment).
\<close>

record run =
  final :: state
  screen :: "ui list"
  raised :: "py_error option"

section \<open>Loading at startup and saving\<close>


text \<open>
  \<^verbatim>\<open>save_library\<close>: the file is opened with mode \<^verbatim>\<open>'w'\<close>, which discards what it held, and
  the whole store is written. When the file cannot be opened the exception is caught and
  reported, and nothing is written.
\<close>

definition save_library :: "state \<Rightarrow> state \<times> ui list" where
  "save_library s =
     (if writable s then
        (s\<lparr>library_file := Some (json_dumps (library s))\<rparr>, [Success [Lit ''Library saved to library.txt'']])
      else (s, [Failure [Lit ''Error saving library: '', Exn OSError]]))"

section \<open>Adding a book\<close>

text \<open>\<^verbatim>\<open>x.append(b)\<close>: only a list has the method.\<close>

fun py_append :: "json \<Rightarrow> json \<Rightarrow> py_error + json" where
  "py_append (JArr xs) b = Inr (JArr (xs @ [b]))"
| "py_append _ b = Inl AttributeError"

text \<open>
  \<^verbatim>\<open>add_book\<close>, with the form's fields and whether the form was submitted as arguments:
  \<open>year\<close> is the integer of the number input and \<open>read_status\<close> the string of the select
  box. The dict of lines 45 to 51 has its five keys in the order of the source.
\<close>

definition add_book :: "bool \<Rightarrow> str \<Rightarrow> str \<Rightarrow> int \<Rightarrow> str \<Rightarrow> str \<Rightarrow> state \<Rightarrow> run" where
  "add_book submitted title author year genre read_status s =
     (if submitted \<and> title \<noteq> [] \<and> author \<noteq> [] then
        (case py_append (library s)
                (JObj [(str ''title'', JStr title),
                       (str ''author'', JStr author),
                       (str ''year'', JInt year),
                       (str ''genre'', JStr genre),
                       (str ''read'', JBool (read_status = str ''Yes''))]) of
           Inl e \<Rightarrow> \<lparr>final = s, screen = [Header ''Add a Book''], raised = Some e\<rparr>
         | Inr lib \<Rightarrow>
             (let (s', out) = save_library (s\<lparr>library := lib\<rparr>) in
              \<lparr>final = s',
               screen = [Header ''Add a Book''] @ out @
                 [Success [Lit [CHR 0x27], Fmt (JStr title), Lit ([CHR 0x27] @ '' by ''),
                           Fmt (JStr author), Lit '' added successfully!'']],
               raised = None\<rparr>))
      else if submitted then
        \<lparr>final = s,
         screen = [Header ''Add a Book'', Warning ''Title and author are required!''],
         raised = None\<rparr>
      else \<lparr>final = s, screen = [Header ''Add a Book''], raised = None\<rparr>)"

section \<open>Removing a book\<close>

text \<open>\<^verbatim>\<open>x[k]\<close> with a string key, \<^verbatim>\<open>len(x)\<close> and \<^verbatim>\<open>x[i]\<close> with an index from \<^verbatim>\<open>range(len(x))\<close>.\<close>

fun subscript :: "json \<Rightarrow> str \<Rightarrow> py_error + json" where
  "subscript (JObj kvs) k = (case map_of kvs k of None \<Rightarrow> Inl KeyError | Some v \<Rightarrow> Inr v)"
| "subscript _ k = Inl TypeError"

fun py_len :: "json \<Rightarrow> py_error + nat" where
  "py_len (JArr xs) = Inr (length xs)"
| "py_len (JObj kvs) = Inr (length kvs)"
| "py_len (JStr s) = Inr (length s)"
| "py_len _ = Inl TypeError"

fun py_index :: "json \<Rightarrow> nat \<Rightarrow> py_error + json" where
  "py_index (JArr xs) i = (if i < length xs then Inr (xs ! i) else Inl IndexError)"
| "py_index (JStr s) i = (if i < length s then Inr (JStr [s ! i]) else Inl IndexError)"
| "py_index (JObj kvs) i = Inl KeyError"
| "py_index _ i = Inl TypeError"

text \<open>
  The label \<^verbatim>\<open>format_func\<close> computes for option \<open>x\<close> of the select box, and the labels of
  all options \<^verbatim>\<open>range(len(library))\<close>, which Streamlit computes when it draws the box.
\<close>

definition format_func :: "json \<Rightarrow> nat \<Rightarrow> py_error + piece list" where
  "format_func lib x =
     (case py_index lib x of
        Inl e \<Rightarrow> Inl e
      | Inr b \<Rightarrow>
          (case subscript b (str ''title'') of
             Inl e \<Rightarrow> Inl e
           | Inr t \<Rightarrow>
               (case subscript b (str ''author'') of
                  Inl e \<Rightarrow> Inl e
                | Inr a \<Rightarrow> Inr [Fmt t, Lit '' by '', Fmt a])))"

fun labels :: "json \<Rightarrow> nat list \<Rightarrow> py_error + piece list list" where
  "labels lib [] = Inr []"
| "labels lib (x # xs) =
     (case format_func lib x of
        Inl e \<Rightarrow> Inl e
      | Inr l \<Rightarrow> (case labels lib xs of Inl e \<Rightarrow> Inl e | Inr ls \<Rightarrow> Inr (l # ls)))"

definition selectbox_labels :: "json \<Rightarrow> py_error + piece list list" where
  "selectbox_labels lib =
     (case py_len lib of Inl e \<Rightarrow> Inl e | Inr n \<Rightarrow> labels lib [0..<n])"

text \<open>
  \<^verbatim>\<open>x.pop(i)\<close> for an integer \<open>i\<close>: a negative index counts from the end of the list, so
  \<^verbatim>\<open>pop(-1)\<close> removes the last item; an index that, after this, is not a position of the
  list raises \<^verbatim>\<open>IndexError\<close>.
\<close>

fun py_pop :: "json \<Rightarrow> int \<Rightarrow> py_error + (json \<times> json)" where
  "py_pop (JArr xs) i =
     (let j = (if i < 0 then i + int (length xs) else i) in
      if 0 \<le> j \<and> j < int (length xs) then
        Inr (xs ! nat j, JArr (take (nat j) xs @ drop (Suc (nat j)) xs))
      else Inl IndexError)"
| "py_pop _ i = Inl AttributeError"

text \<open>
  \<^verbatim>\<open>remove_book\<close>, with the value of \<^verbatim>\<open>book_to_remove\<close> and whether the button was pressed
  as arguments. The select box offers the options \<^verbatim>\<open>range(len(library))\<close>; the model takes
  any integer, so that it also says what line 78 does with an index that is no option. The
  \<^verbatim>\<open>DataFrame\<close> of line 68 is never used; on a list of dicts pandas builds it without an
  exception. On a store of another shape pandas may raise before the select box does: the
  run ends with an exception at this point in both cases, and the model reports the one of
  the select box.
\<close>

definition remove_book :: "int \<Rightarrow> bool \<Rightarrow> state \<Rightarrow> run" where
  "remove_book book_to_remove clicked s =
     (if \<not> truthy (library s) then
        \<lparr>final = s, screen = [Header ''Remove a Book'', Info ''Your library is empty.''],
         raised = None\<rparr>
      else
        (case selectbox_labels (library s) of
           Inl e \<Rightarrow> \<lparr>final = s, screen = [Header ''Remove a Book''], raised = Some e\<rparr>
         | Inr ls \<Rightarrow>
             if clicked then
               (case py_pop (library s) book_to_remove of
                  Inl e \<Rightarrow> \<lparr>final = s, screen = [Header ''Remove a Book''], raised = Some e\<rparr>
                | Inr (removed_book, lib) \<Rightarrow>
                    (let (s', out) = save_library (s\<lparr>library := lib\<rparr>) in
                     (case subscript removed_book (str ''title'') of
                        Inl e \<Rightarrow>
                          \<lparr>final = s', screen = [Header ''Remove a Book''] @ out, raised = Some e\<rparr>
                      | Inr t \<Rightarrow>
                          \<lparr>final = s',
                           screen = [Header ''Remove a Book''] @ out @
                             [Success [Lit [CHR 0x27], Fmt t, Lit ([CHR 0x27] @ '' removed successfully!'')]],
                           raised = None\<rparr>)))
             else \<lparr>final = s, screen = [Header ''Remove a Book''], raised = None\<rparr>))"

section \<open>Showing books as a table\<close>

text \<open>
  \<^verbatim>\<open>pd.DataFrame(records)\<close> for a list of dicts: one row for each dict and one column for
  each key, in the order in which the keys first occur.
\<close>

definition column_keys :: "(str \<times> json) list list \<Rightarrow> str list" where
  "column_keys records = rev (remdups (rev (concat (map (map fst) records))))"

text \<open>
  A column in which every dict has an integer that fits 64 bits: pandas gives it the
  type \<^verbatim>\<open>int64\<close> and keeps the integers.
\<close>

definition int64 :: "int \<Rightarrow> bool" where
  "int64 i = (- (2 ^ 63) \<le> i \<and> i < 2 ^ 63)"

definition whole_numbers :: "(str \<times> json) list list \<Rightarrow> str \<Rightarrow> bool" where
  "whole_numbers records k =
     list_all (\<lambda>r. case map_of r k of Some (JInt i) \<Rightarrow> int64 i | _ \<Rightarrow> False) records"

text \<open>
  The cell of the dict \<open>r\<close> in the column of the key \<open>k\<close>. A dict that lacks the key gets
  \<^verbatim>\<open>NaN\<close>. A string, a bool, a list and a dict are kept as they are. An integer is kept in
  a column of integers; beside a \<^verbatim>\<open>NaN\<close> pandas turns it into a float, and what it does with
  an integer beside other values, and with \<^verbatim>\<open>None\<close>, depends on the rest of the column: the
  model leaves these cells open.
\<close>

definition frame_cell :: "(str \<times> json) list list \<Rightarrow> str \<Rightarrow> (str \<times> json) list \<Rightarrow> cell" where
  "frame_cell records k r =
     (case map_of r k of
        None \<Rightarrow> NaN
      | Some JNull \<Rightarrow> Unmodelled
      | Some (JInt i) \<Rightarrow> if whole_numbers records k then Val (JInt i) else Unmodelled
      | Some v \<Rightarrow> Val v)"

definition DataFrame :: "(str \<times> json) list list \<Rightarrow> frame" where
  "DataFrame records =
     \<lparr>nrows = length records,
      columns = map (\<lambda>k. (k, map (frame_cell records k) records)) (column_keys records)\<rparr>"

text \<open>\<^verbatim>\<open>df.empty\<close>: the frame has no row or no column.\<close>

definition frame_empty :: "frame \<Rightarrow> bool" where
  "frame_empty df = (nrows df = 0 \<or> columns df = [])"

text \<open>Lines 122 to 124: a column that is not there is added, with the empty string in every row.\<close>

definition add_missing :: "frame \<Rightarrow> str \<Rightarrow> frame" where
  "add_missing df col =
     (if col \<in> set (map fst (columns df)) then df
      else df\<lparr>columns := columns df @ [(col, replicate (nrows df) (Val (JStr [])))]\<rparr>)"

text \<open>
  The cell of the dict \<open>r\<close> in the column \<open>k\<close> after these lines: the cell of the frame
  when the frame has the column, and the empty string of the added column otherwise.
\<close>

definition column_cell :: "(str \<times> json) list list \<Rightarrow> str \<Rightarrow> (str \<times> json) list \<Rightarrow> cell" where
  "column_cell records k r =
     (if k \<in> set (column_keys records) then frame_cell records k r else Val (JStr []))"

text \<open>
  Line 127, \<^verbatim>\<open>df[[...]]\<close>: the named columns in the order given. Every name is a column
  of the frame when the script gets here, so the \<^verbatim>\<open>KeyError\<close> of a missing one cannot
  occur (lemma \<open>expected_columns_present\<close> below).
\<close>

definition select_columns :: "frame \<Rightarrow> str list \<Rightarrow> frame" where
  "select_columns df names =
     df\<lparr>columns := map (\<lambda>c. (c, case map_of (columns df) c of None \<Rightarrow> [] | Some xs \<Rightarrow> xs)) names\<rparr>"

text \<open>Line 128, \<^verbatim>\<open>df.columns = [...]\<close>: the columns get new names, in order.\<close>

definition rename_columns :: "frame \<Rightarrow> str list \<Rightarrow> frame" where
  "rename_columns df names = df\<lparr>columns := map2 (\<lambda>n (old, xs). (n, xs)) names (columns df)\<rparr>"

text \<open>
  Line 131, \<^verbatim>\<open>.map({True: "Yes", False: "No"})\<close>, on one cell: \<^verbatim>\<open>True\<close> and \<^verbatim>\<open>False\<close> get
  their label; a string and \<^verbatim>\<open>NaN\<close> are no key of the dict and give \<^verbatim>\<open>NaN\<close>; a list or a
  dict cannot be hashed, and the look-up raises \<^verbatim>\<open>TypeError\<close>. Whether pandas takes the
  integers 1 and 0 for \<^verbatim>\<open>True\<close> and \<^verbatim>\<open>False\<close> depends on the type of the column: the model
  leaves the cell open.
\<close>

fun yes_no :: "cell \<Rightarrow> py_error + cell" where
  "yes_no (Val (JBool b)) = Inr (Val (JStr (if b then str ''Yes'' else str ''No'')))"
| "yes_no (Val (JStr s)) = Inr NaN"
| "yes_no (Val (JArr xs)) = Inl TypeError"
| "yes_no (Val (JObj kvs)) = Inl TypeError"
| "yes_no NaN = Inr NaN"
| "yes_no _ = Inr Unmodelled"

text \<open>\<^verbatim>\<open>Series.map\<close> over the cells of a column; an exception ends it.\<close>

fun map_cells :: "(cell \<Rightarrow> py_error + cell) \<Rightarrow> cell list \<Rightarrow> py_error + cell list" where
  "map_cells f [] = Inr []"
| "map_cells f (x # xs) =
     (case f x of
        Inl e \<Rightarrow> Inl e
      | Inr y \<Rightarrow> (case map_cells f xs of Inl e \<Rightarrow> Inl e | Inr ys \<Rightarrow> Inr (y # ys)))"

text \<open>\<^verbatim>\<open>df[name] = df[name].map(...)\<close>: the column \<open>name\<close> is replaced, at its place.\<close>

fun map_column :: "str \<Rightarrow> (cell \<Rightarrow> py_error + cell) \<Rightarrow> (str \<times> cell list) list \<Rightarrow> py_error + (str \<times> cell list) list" where
  "map_column name f [] = Inr []"
| "map_column name f ((n, xs) # cols) =
     (case (if n = name then map_cells f xs else Inr xs) of
        Inl e \<Rightarrow> Inl e
      | Inr ys \<Rightarrow> (case map_column name f cols of Inl e \<Rightarrow> Inl e | Inr rest \<Rightarrow> Inr ((n, ys) # rest)))"

definition expected :: "str list" where
  "expected = [str ''title'', str ''author'', str ''year'', str ''genre'', str ''read'']"

definition shown :: "str list" where
  "shown = [str ''Title'', str ''Author'', str ''Year'', str ''Genre'', str ''Read'']"

text \<open>
  \<^verbatim>\<open>display_books\<close> on the list it is to show (the argument, or the store when there is
  none), a list of dicts: what it shows, or the exception that ends it.
\<close>

definition display_books :: "(str \<times> json) list list \<Rightarrow> py_error + ui list" where
  "display_books books_list =
     (if books_list = [] then Inr [Info ''No books to display.'']
      else
        (let df = DataFrame books_list in
         if frame_empty df then Inr []
         else
           (let df2 = rename_columns (select_columns (foldl add_missing df expected) expected) shown
            in case map_column (str ''Read'') yes_no (columns df2) of
                 Inl e \<Rightarrow> Inl e
               | Inr cols \<Rightarrow> Inr [Dataframe (df2\<lparr>columns := cols\<rparr>)])))"

section \<open>Searching\<close>










text \<open>The two options of the radio button.\<close>

datatype search_field = Title | Author



text \<open>\<^verbatim>\<open>for book in x\<close>: a list gives its items, a dict its keys, a string its characters.\<close>

fun py_iter :: "json \<Rightarrow> py_error + json list" where
  "py_iter (JArr xs) = Inr xs"
| "py_iter (JObj kvs) = Inr (map (\<lambda>(k, v). JStr k) kvs)"
| "py_iter (JStr s) = Inr (map (\<lambda>c. JStr [c]) s)"
| "py_iter _ = Inl TypeError"



section \<open>Statistics\<close>

text \<open>Line 145: the number of books whose \<^verbatim>\<open>read\<close> value is true.\<close>

fun count_read :: "json list \<Rightarrow> py_error + nat" where
  "count_read [] = Inr 0"
| "count_read (b # bs) =
     (case subscript b (str ''read'') of
        Inl e \<Rightarrow> Inl e
      | Inr v \<Rightarrow>
          (case count_read bs of
             Inl e \<Rightarrow> Inl e
           | Inr n \<Rightarrow> Inr (if truthy v then Suc n else n)))"

text \<open>
  Lines 146 and 157: \<^verbatim>\<open>(read_books / total_books) * 100\<close>, or 0 when there is no book,
  formatted with \<^verbatim>\<open>:.1f\<close>, which rounds to one decimal, a tie going to the even digit.
  Python computes the quotient in floating point; the model rounds the exact quotient,
  counted in tenths of a percent. The two agree unless the exact quotient is a tie, where
  the floating-point value may lie on either side of it.
\<close>

definition percent_tenths :: "nat \<Rightarrow> nat \<Rightarrow> nat" where
  "percent_tenths read_books total_books =
     (if total_books > 0 then
        (let q = (1000 * read_books) div total_books;
             r = (1000 * read_books) mod total_books
         in if 2 * r > total_books \<or> (2 * r = total_books \<and> odd q) then q + 1 else q)
      else 0)"

definition format_1f :: "nat \<Rightarrow> str" where
  "format_1f tenths = digits (tenths div 10) @ str ''.'' @ digits (tenths mod 10)"

text \<open>
  Lines 162 to 168: the dict of genre counts. A list or a dict cannot be a key. Keys are
  compared as Python compares them: a bool is equal to the integer 1 or 0.
\<close>

fun hashable :: "json \<Rightarrow> bool" where
  "hashable (JArr xs) = False"
| "hashable (JObj kvs) = False"
| "hashable _ = True"

fun key_number :: "json \<Rightarrow> int option" where
  "key_number (JBool b) = Some (if b then 1 else 0)"
| "key_number (JInt i) = Some i"
| "key_number _ = None"

definition key_eq :: "json \<Rightarrow> json \<Rightarrow> bool" where
  "key_eq a b =
     (case (key_number a, key_number b) of
        (Some x, Some y) \<Rightarrow> x = y
      | (None, None) \<Rightarrow> a = b
      | _ \<Rightarrow> False)"

fun count_genre :: "json \<Rightarrow> (json \<times> nat) list \<Rightarrow> (json \<times> nat) list" where
  "count_genre genre [] = [(genre, 1)]"
| "count_genre genre ((k, n) # rest) =
     (if key_eq genre k then (k, n + 1) # rest else (k, n) # count_genre genre rest)"

fun genre_counts :: "json list \<Rightarrow> (json \<times> nat) list \<Rightarrow> py_error + (json \<times> nat) list" where
  "genre_counts [] counts = Inr counts"
| "genre_counts (b # bs) counts =
     (case subscript b (str ''genre'') of
        Inl e \<Rightarrow> Inl e
      | Inr genre \<Rightarrow>
          if hashable genre then genre_counts bs (count_genre genre counts) else Inl TypeError)"

text \<open>
  \<^verbatim>\<open>display_stats\<close>. The three metrics are shown before the genre loop runs, so an
  exception in the loop leaves them on the screen.
\<close>

definition display_stats :: "state \<Rightarrow> run" where
  "display_stats s =
     (if \<not> truthy (library s) then
        \<lparr>final = s, screen = [Header ''Library Statistics'', Info ''Your library is empty.''],
         raised = None\<rparr>
      else
        (case py_len (library s) of
           Inl e \<Rightarrow> \<lparr>final = s, screen = [Header ''Library Statistics''], raised = Some e\<rparr>
         | Inr total_books \<Rightarrow>
             (case py_iter (library s) of
                Inl e \<Rightarrow> \<lparr>final = s, screen = [Header ''Library Statistics''], raised = Some e\<rparr>
              | Inr bs \<Rightarrow>
                  (case count_read bs of
                     Inl e \<Rightarrow>
                       \<lparr>final = s, screen = [Header ''Library Statistics''], raised = Some e\<rparr>
                   | Inr read_books \<Rightarrow>
                       (let metrics =
                              [Header ''Library Statistics'',
                               Metric ''Total Books'' (JInt (int total_books)),
                               Metric ''Books Read'' (JInt (int read_books)),
                               Metric ''Percentage Read''
                                 (JStr (format_1f (percent_tenths read_books total_books) @ str ''%''))]
                        in if total_books > 0 then
                             (case genre_counts bs [] of
                                Inl e \<Rightarrow>
                                  \<lparr>final = s,
                                   screen = metrics @ [Subheader ''Genre Distribution''],
                                   raised = Some e\<rparr>
                              | Inr counts \<Rightarrow>
                                  \<lparr>final = s,
                                   screen = metrics @ [Subheader ''Genre Distribution'', BarChart counts],
                                   raised = None\<rparr>)
                           else \<lparr>final = s, screen = metrics, raised = None\<rparr>)))))"

section \<open>Example data\<close>

text \<open>Two books as \<^verbatim>\<open>add_book\<close> builds them, and a session that holds a given store.\<close>

definition hobbit :: json where
  "hobbit =
     JObj [(str ''title'', JStr (str ''The Hobbit'')),
           (str ''author'', JStr (str ''J.R.R. Tolkien'')),
           (str ''year'', JInt 1937),
           (str ''genre'', JStr (str ''Fantasy'')),
           (str ''read'', JBool True)]"

definition dune :: json where
  "dune =
     JObj [(str ''title'', JStr (str ''Dune'')),
           (str ''author'', JStr (str ''Frank Herbert'')),
           (str ''year'', JInt 1965),
           (str ''genre'', JStr (str ''Science Fiction'')),
           (str ''read'', JBool False)]"

definition session :: "json \<Rightarrow> state" where
  "session lib = \<lparr>library = lib, library_file = None, readable = True, writable = True\<rparr>"

text \<open>A book whose genre was left empty in the form.\<close>

definition untitled :: json where
  "untitled =
     JObj [(str ''title'', JStr (str ''Notes'')),
           (str ''author'', JStr (str ''Anonymous'')),
           (str ''year'', JInt 2001),
           (str ''genre'', JStr []),
           (str ''read'', JBool False)]"



text \<open>
  A book whose title is the two code points \<^verbatim>\<open>0xD83D\<close> and \<^verbatim>\<open>0xDE00\<close>, a high and a low
  surrogate (a Python \<^verbatim>\<open>str\<close> can hold them), and the book whose title is the one code
  point \<^verbatim>\<open>0x1F600\<close> that the two encode as a pair.
\<close>

definition halves :: json where
  "halves =
     JObj [(str ''title'', JStr [0xD83D, 0xDE00]),
           (str ''author'', JStr (str ''Anonymous'')),
           (str ''year'', JInt 2001),
           (str ''genre'', JStr []),
           (str ''read'', JBool False)]"

definition joined :: json where
  "joined =
     JObj [(str ''title'', JStr [0x1F600]),
           (str ''author'', JStr (str ''Anonymous'')),
           (str ''year'', JInt 2001),
           (str ''genre'', JStr []),
           (str ''read'', JBool False)]"

text \<open>
  Records as a file may hold them: the second lacks the genre the first has, and neither
  has an author or a year; and records whose read flag is a list.
\<close>

definition partial_records :: "(str \<times> json) list list" where
  "partial_records =
     [[(str ''read'', JBool True), (str ''title'', JStr (str ''A'')), (str ''genre'', JStr (str ''x''))],
      [(str ''title'', JStr (str ''B'')), (str ''read'', JBool False)]]"

definition listed_records :: "(str \<times> json) list list" where
  "listed_records = [[(str ''title'', JStr (str ''A'')), (str ''read'', JArr [JInt 1])]]"



section \<open>Shapes of records\<close>

text \<open>
  A record that the select box of \<^verbatim>\<open>remove_book\<close> can label: a dict with a \<^verbatim>\<open>title\<close> and
  an \<^verbatim>\<open>author\<close>.
\<close>

definition labelled :: "json \<Rightarrow> bool" where
  "labelled b = (\<not> isl (subscript b (str ''title'')) \<and> \<not> isl (subscript b (str ''author'')))"

text \<open>A record whose \<^verbatim>\<open>genre\<close> is a string, and the genre of such a record.\<close>

definition text_genre :: "json \<Rightarrow> bool" where
  "text_genre b = (case subscript b (str ''genre'') of Inr (JStr g) \<Rightarrow> True | _ \<Rightarrow> False)"

text \<open>The number of records of a list that carry the genre value \<open>g\<close>.\<close>

definition carrying :: "json \<Rightarrow> json list \<Rightarrow> nat" where
  "carrying g bs = length (filter (\<lambda>b. subscript b (str ''genre'') = Inr g) bs)"






text \<open>
  Whether some record of a list has the key \<open>k\<close>, and the cell of row \<open>i\<close> in the column
  named \<open>name\<close> of a frame.
\<close>

definition has_column :: "(str \<times> json) list list \<Rightarrow> str \<Rightarrow> bool" where
  "has_column books k = (\<exists>r\<in>set books. k \<in> set (map fst r))"

definition cell_at :: "frame \<Rightarrow> str \<Rightarrow> nat \<Rightarrow> cell option" where
  "cell_at df name i =
     (case map_of (columns df) name of
        None \<Rightarrow> None
      | Some xs \<Rightarrow> if i < length xs then Some (xs ! i) else None)"

text \<open>A record whose read flag is a list or a dict.\<close>

definition unhashable_read :: "(str \<times> json) list \<Rightarrow> bool" where
  "unhashable_read r =
     (case map_of r (str ''read'') of
        Some (JArr xs) \<Rightarrow> True
      | Some (JObj kvs) \<Rightarrow> True
      | _ \<Rightarrow> False)"

text \<open>
  A Unicode scalar value: a code point that is no surrogate. Text of scalar values is
  what a text input delivers.
\<close>

definition scalar :: "nat \<Rightarrow> bool" where
  "scalar c = (c < 0xD800 \<or> (0xE000 \<le> c \<and> c < 0x110000))"

text \<open>
  A value as Python holds it, with text of scalar values only: in every dict no key
  occurs twice, and every string and every key is text of scalar values.
\<close>

fun storable :: "json \<Rightarrow> bool" where
  "storable (JStr s) = list_all scalar s"
| "storable (JArr xs) = (\<forall>x\<in>set xs. storable x)"
| "storable (JObj kvs) =
     (distinct (map fst kvs) \<and> (\<forall>kv\<in>set kvs. list_all scalar (fst kv) \<and> storable (snd kv)))"
| "storable _ = True"

text \<open>
  The number of nested calls the scanner makes on the text of a value; it is smaller
  than the length of the text.
\<close>

fun calls :: "json \<Rightarrow> nat"
  and calls_items :: "json list \<Rightarrow> nat"
  and calls_members :: "(str \<times> json) list \<Rightarrow> nat"
where
  "calls (JArr xs) = Suc (calls_items xs)"
| "calls (JObj kvs) = Suc (calls_members kvs)"
| "calls JNull = 1"
| "calls (JBool b) = 1"
| "calls (JInt i) = 1"
| "calls (JStr s) = 1"
| "calls_items [] = 0"
| "calls_items (x # xs) = Suc (calls x + calls_items xs)"
| "calls_members [] = 0"
| "calls_members ((k, v) # kvs) = Suc (calls v + calls_members kvs)"

text \<open>
  A text that does not continue a number: it is empty, or starts with a character that is
  no digit, no point and no letter \<^verbatim>\<open>e\<close> or \<^verbatim>\<open>E\<close>.
\<close>

definition ends_number :: "str \<Rightarrow> bool" where
  "ends_number cs =
     (case cs of [] \<Rightarrow> True | c # r \<Rightarrow> \<not> is_digit c \<and> c \<noteq> 0x2E \<and> c \<noteq> 0x65 \<and> c \<noteq> 0x45)"

text \<open>
  Book records: the dicts \<^verbatim>\<open>add_book\<close> builds from a title, an author, a year, a genre
  and a read flag.
\<close>

type_synonym book_fields = "str \<times> str \<times> int \<times> str \<times> bool"

section \<open>Literals of the source\<close>

text \<open>Two literals are the same text exactly when they are the same literal.\<close>

lemma str_eq_iff [simp]: "(str a = str b) = (a = b)"
proof -
  have "inj (of_char :: char \<Rightarrow> nat)" by (rule injI) simp
  then show ?thesis unfolding str_def by (simp add: inj_map_eq_map)
qed

lemma str_Nil [simp]: "str [] = []"
  by (simp add: str_def)

lemma str_Nil_iff [simp]: "(str a = []) = (a = [])" "([] = str a) = (a = [])"
  by (auto simp: str_def)

lemma str_join [simp]: "str a @ str b = str (a @ b)"
  by (simp add: str_def)

section \<open>Properties of adding a book\<close>

text \<open>
  C1. On a store that is a list, a submitted form appends a book exactly when title and
  author are both non-empty. When it does, the new store is the old list followed by the
  one new record, the dict with the five fields \<^verbatim>\<open>title\<close>, \<^verbatim>\<open>author\<close>, \<^verbatim>\<open>year\<close>, \<^verbatim>\<open>genre\<close>
  and \<^verbatim>\<open>read\<close> of the form, so its length grows by one and the earlier records are as they
  were; \<^verbatim>\<open>save_library\<close> runs on the new store, and the file holds the new store's text
  when it can be written. When title or author is empty the state is unchanged and the
  warning is shown.
\<close>

theorem add_book_iff_valid:
  assumes "library s = JArr bs"
  shows "let b = JObj [(str ''title'', JStr title),
                       (str ''author'', JStr author),
                       (str ''year'', JInt year),
                       (str ''genre'', JStr genre),
                       (str ''read'', JBool (read_status = str ''Yes''))];
             r = add_book True title author year genre read_status s
         in ((library (final r) = JArr (bs @ [b])) = (title \<noteq> [] \<and> author \<noteq> []))
          \<and> (title \<noteq> [] \<and> author \<noteq> [] \<longrightarrow>
                (\<exists>new. library (final r) = JArr new \<and> length new = length bs + 1
                    \<and> take (length bs) new = bs \<and> new ! length bs = b)
              \<and> final r = fst (save_library (s\<lparr>library := JArr (bs @ [b])\<rparr>))
              \<and> library_file (final r) =
                  (if writable s then Some (json_dumps (JArr (bs @ [b]))) else library_file s)
              \<and> screen r = [Header ''Add a Book''] @ snd (save_library (s\<lparr>library := JArr (bs @ [b])\<rparr>)) @
                  [Success [Lit [CHR 0x27], Fmt (JStr title), Lit ([CHR 0x27] @ '' by ''),
                            Fmt (JStr author), Lit '' added successfully!'']]
              \<and> raised r = None)
          \<and> (title = [] \<or> author = [] \<longrightarrow>
                final r = s \<and> raised r = None
              \<and> screen r = [Header ''Add a Book'', Warning ''Title and author are required!''])"
  using assms by (auto simp: add_book_def save_library_def Let_def split: prod.splits)

theorem add_book_iff_valid_witness:
  "library (final (add_book True (str ''The Hobbit'') (str ''J.R.R. Tolkien'') 1937 (str ''Fantasy'') (str ''Yes'')
                     (session (JArr [dune]))))
     = JArr [dune,
             JObj [(str ''title'', JStr (str ''The Hobbit'')),
                   (str ''author'', JStr (str ''J.R.R. Tolkien'')),
                   (str ''year'', JInt 1937),
                   (str ''genre'', JStr (str ''Fantasy'')),
                   (str ''read'', JBool True)]]
   \<and> library_file (final (add_book True (str ''The Hobbit'') (str ''J.R.R. Tolkien'') 1937 (str ''Fantasy'') (str ''Yes'')
                     (session (JArr [dune]))))
     = Some (json_dumps (JArr [dune, hobbit]))
   \<and> final (add_book True [] (str ''J.R.R. Tolkien'') 1937 (str ''Fantasy'') (str ''Yes'') (session (JArr [dune])))
     = session (JArr [dune])
   \<and> screen (add_book True (str ''The Hobbit'') [] 1937 (str ''Fantasy'') (str ''Yes'') (session (JArr [dune])))
     = [Header ''Add a Book'', Warning ''Title and author are required!'']"
  using add_book_iff_valid [of "session (JArr [dune])" "[dune]" "str ''The Hobbit''" "str ''J.R.R. Tolkien''" 1937 "str ''Fantasy''" "str ''Yes''"]
        add_book_iff_valid [of "session (JArr [dune])" "[dune]" "[]" "str ''J.R.R. Tolkien''" 1937 "str ''Fantasy''" "str ''Yes''"]
        add_book_iff_valid [of "session (JArr [dune])" "[dune]" "str ''The Hobbit''" "[]" 1937 "str ''Fantasy''" "str ''Yes''"]
  by (simp add: session_def hobbit_def Let_def save_library_def)

section \<open>Properties of removing a book\<close>

text \<open>On a list of records that all have a title and an author, the select box can be drawn.\<close>

lemma labels_ok:
  assumes "\<forall>b\<in>set bs. labelled b" "\<forall>x\<in>set xs. x < length bs"
  shows "\<not> isl (labels (JArr bs) xs)"
  using assms(2)
proof (induction xs)
  case Nil
  then show ?case by simp
next
  case (Cons x xs)
  then have "x < length bs" by simp
  then have "labelled (bs ! x)" using assms(1) by simp
  then have "\<not> isl (format_func (JArr bs) x)"
    using \<open>x < length bs\<close>
    by (auto simp: format_func_def labelled_def split: sum.splits)
  moreover have "\<not> isl (labels (JArr bs) xs)" using Cons by simp
  ultimately show ?case by (auto split: sum.splits)
qed

lemma selectbox_labels_ok:
  assumes "\<forall>b\<in>set bs. labelled b"
  shows "\<exists>ls. selectbox_labels (JArr bs) = Inr ls"
proof -
  have "\<not> isl (labels (JArr bs) [0..<length bs])"
    using labels_ok [OF assms, of "[0..<length bs]"] by simp
  then show ?thesis by (cases "labels (JArr bs) [0..<length bs]") (auto simp: selectbox_labels_def)
qed

text \<open>
  C2. On a store that is a list of records with title and author, pressing the button with
  an index \<open>i\<close> inside the list removes the record at position \<open>i\<close> and no other: the new
  store is the records before \<open>i\<close> followed by the records after \<open>i\<close>, one shorter than the
  old one, with every remaining record at its old place or one place earlier, in the old
  order. \<^verbatim>\<open>save_library\<close> runs on the new store, and the message names the title of the
  record that was at position \<open>i\<close>.
\<close>

theorem remove_book_valid_index:
  assumes "library s = JArr bs" and "\<forall>b\<in>set bs. labelled b" and "i < length bs"
  shows "let r = remove_book (int i) True s; rest = take i bs @ drop (Suc i) bs
         in library (final r) = JArr rest
          \<and> length rest + 1 = length bs
          \<and> (\<forall>j < length rest. rest ! j = (if j < i then bs ! j else bs ! Suc j))
          \<and> final r = fst (save_library (s\<lparr>library := JArr rest\<rparr>))
          \<and> library_file (final r) = (if writable s then Some (json_dumps (JArr rest)) else library_file s)
          \<and> (\<exists>t. subscript (bs ! i) (str ''title'') = Inr t
               \<and> screen r = [Header ''Remove a Book''] @ snd (save_library (s\<lparr>library := JArr rest\<rparr>)) @
                   [Success [Lit [CHR 0x27], Fmt t, Lit ([CHR 0x27] @ '' removed successfully!'')]])
          \<and> raised r = None"
proof -
  obtain ls where ls: "selectbox_labels (JArr bs) = Inr ls"
    using selectbox_labels_ok [OF assms(2)] by blast
  have ne: "bs \<noteq> []" using assms(3) by auto
  have "labelled (bs ! i)" using assms(2,3) by simp
  then obtain t where t: "subscript (bs ! i) (str ''title'') = Inr t"
    by (cases "subscript (bs ! i) (str ''title'')") (auto simp: labelled_def)
  have nth: "\<forall>j < length (take i bs @ drop (Suc i) bs).
      (take i bs @ drop (Suc i) bs) ! j = (if j < i then bs ! j else bs ! Suc j)"
    using assms(3) by (auto simp: nth_append min_def)
  have len: "length (take i bs @ drop (Suc i) bs) + 1 = length bs"
    using assms(3) by simp
  show ?thesis
    unfolding Let_def
    using assms(1,3) ls ne t nth len
    by (simp add: remove_book_def save_library_def split: prod.splits)
qed

theorem remove_book_valid_index_witness:
  "library (final (remove_book 0 True (session (JArr [hobbit, dune])))) = JArr [dune]
   \<and> library_file (final (remove_book 0 True (session (JArr [hobbit, dune])))) = Some (json_dumps (JArr [dune]))
   \<and> raised (remove_book 0 True (session (JArr [hobbit, dune]))) = None"
  using remove_book_valid_index [of "session (JArr [hobbit, dune])" "[hobbit, dune]" 0]
  by (simp add: session_def labelled_def hobbit_def dune_def Let_def save_library_def)

text \<open>
  C3, as stated, fails: \<^verbatim>\<open>-1\<close> is no option of the select box and no position of the
  list, yet \<^verbatim>\<open>pop(-1)\<close> removes the last record, and \<^verbatim>\<open>save_library\<close> writes the file.
\<close>

theorem remove_book_no_op_counterexample:
  "library (final (remove_book (- 1) True (session (JArr [hobbit, dune])))) = JArr [hobbit]
   \<and> library_file (session (JArr [hobbit, dune])) = None
   \<and> library_file (final (remove_book (- 1) True (session (JArr [hobbit, dune]))))
       = Some (json_dumps (JArr [hobbit]))
   \<and> raised (remove_book (- 1) True (session (JArr [hobbit, dune]))) = None"
  by (simp add: remove_book_def selectbox_labels_def format_func_def session_def save_library_def
        hobbit_def dune_def upt_rec)

text \<open>
  C3, amended. On a store that is a list of \<open>n\<close> records, an index \<open>i\<close> with \<open>n \<le> i\<close> or
  \<open>i < - n\<close> leaves the whole state (store and file) as it was, and nothing of
  \<^verbatim>\<open>save_library\<close> is on the screen: on the empty list the run shows that the library is
  empty and ends, on a non-empty list it ends with the \<^verbatim>\<open>IndexError\<close> of \<^verbatim>\<open>pop\<close> (or with
  the exception of the select box) before the store is touched. A negative index \<open>i\<close> with
  \<open>- n \<le> i\<close> is taken from the end of the list: the record at position \<open>n + i\<close> is removed
  and \<^verbatim>\<open>save_library\<close> runs on the new store.
\<close>

theorem remove_book_no_op:
  assumes "library s = JArr bs"
  shows "(int (length bs) \<le> i \<or> i < - int (length bs) \<longrightarrow>
            (let r = remove_book i clicked s
             in final r = s
              \<and> screen r = (if bs = [] then [Header ''Remove a Book'', Info ''Your library is empty.'']
                            else [Header ''Remove a Book''])
              \<and> (bs = [] \<longrightarrow> raised r = None)
              \<and> (bs \<noteq> [] \<and> clicked \<and> \<not> isl (selectbox_labels (JArr bs)) \<longrightarrow> raised r = Some IndexError)))
       \<and> (- int (length bs) \<le> i \<and> i < 0 \<and> \<not> isl (selectbox_labels (JArr bs)) \<longrightarrow>
            (let r = remove_book i True s;
                 rest = take (nat (i + int (length bs))) bs @ drop (Suc (nat (i + int (length bs)))) bs
             in library (final r) = JArr rest
              \<and> length rest + 1 = length bs
              \<and> final r = fst (save_library (s\<lparr>library := JArr rest\<rparr>))
              \<and> library_file (final r) =
                  (if writable s then Some (json_dumps (JArr rest)) else library_file s)))"
proof (intro conjI impI)
  assume "int (length bs) \<le> i \<or> i < - int (length bs)"
  then show "let r = remove_book i clicked s
             in final r = s
              \<and> screen r = (if bs = [] then [Header ''Remove a Book'', Info ''Your library is empty.'']
                            else [Header ''Remove a Book''])
              \<and> (bs = [] \<longrightarrow> raised r = None)
              \<and> (bs \<noteq> [] \<and> clicked \<and> \<not> isl (selectbox_labels (JArr bs)) \<longrightarrow> raised r = Some IndexError)"
    using assms
    by (cases "selectbox_labels (JArr bs)") (auto simp: remove_book_def Let_def)
next
  assume a: "- int (length bs) \<le> i \<and> i < 0 \<and> \<not> isl (selectbox_labels (JArr bs))"
  then have ne: "bs \<noteq> []" by auto
  obtain ls where ls: "selectbox_labels (JArr bs) = Inr ls"
    using a by (cases "selectbox_labels (JArr bs)") auto
  have j: "nat (i + int (length bs)) < length bs" "0 \<le> i + int (length bs)"
    using a by auto
  show "let r = remove_book i True s;
            rest = take (nat (i + int (length bs))) bs @ drop (Suc (nat (i + int (length bs)))) bs
        in library (final r) = JArr rest
         \<and> length rest + 1 = length bs
         \<and> final r = fst (save_library (s\<lparr>library := JArr rest\<rparr>))
         \<and> library_file (final r) =
             (if writable s then Some (json_dumps (JArr rest)) else library_file s)"
    unfolding Let_def
    using assms a ne ls j
    by (auto simp: remove_book_def save_library_def Let_def split: prod.splits sum.splits)
qed

theorem remove_book_no_op_witness:
  "final (remove_book 0 True (session (JArr []))) = session (JArr [])
   \<and> screen (remove_book 0 True (session (JArr []))) = [Header ''Remove a Book'', Info ''Your library is empty.'']
   \<and> raised (remove_book 0 True (session (JArr []))) = None
   \<and> final (remove_book 2 True (session (JArr [hobbit, dune]))) = session (JArr [hobbit, dune])
   \<and> screen (remove_book 2 True (session (JArr [hobbit, dune]))) = [Header ''Remove a Book'']
   \<and> raised (remove_book 2 True (session (JArr [hobbit, dune]))) = Some IndexError
   \<and> final (remove_book (- 3) True (session (JArr [hobbit, dune]))) = session (JArr [hobbit, dune])
   \<and> raised (remove_book (- 3) True (session (JArr [hobbit, dune]))) = Some IndexError
   \<and> library (final (remove_book (- 2) True (session (JArr [hobbit, dune])))) = JArr [dune]"
proof -
  have l: "\<not> isl (selectbox_labels (JArr [hobbit, dune]))"
    by (simp add: selectbox_labels_def format_func_def hobbit_def dune_def upt_rec)
  show ?thesis
    using remove_book_no_op [of "session (JArr [])" "[]" 0 True]
          remove_book_no_op [of "session (JArr [hobbit, dune])" "[hobbit, dune]" 2 True]
          remove_book_no_op [of "session (JArr [hobbit, dune])" "[hobbit, dune]" "- 3" True]
          remove_book_no_op [of "session (JArr [hobbit, dune])" "[hobbit, dune]" "- 2" True] l
    by (simp add: session_def Let_def save_library_def)
qed

section \<open>Properties of the statistics\<close>

text \<open>
  C6, as stated, fails: on the empty store \<^verbatim>\<open>display_stats\<close> returns at line 142, having
  shown the notice that the library is empty, and shows no total, no read count and no
  percentage.
\<close>

theorem display_stats_empty_counterexample:
  "screen (display_stats (session (JArr []))) =
     [Header ''Library Statistics'', Info ''Your library is empty.'']
   \<and> Metric ''Total Books'' (JInt 0) \<notin> set (screen (display_stats (session (JArr []))))
   \<and> Metric ''Books Read'' (JInt 0) \<notin> set (screen (display_stats (session (JArr []))))"
  by (simp add: display_stats_def session_def)

text \<open>
  C6, amended. On every state whose store is the empty list, \<^verbatim>\<open>display_stats\<close> leaves the
  state as it is, shows the header and the notice that the library is empty and nothing
  else (no metric at all), and ends without an exception: the division of line 146 is
  never reached.
\<close>

theorem display_stats_empty:
  "display_stats (s\<lparr>library := JArr []\<rparr>) =
     \<lparr>final = s\<lparr>library := JArr []\<rparr>,
      screen = [Header ''Library Statistics'', Info ''Your library is empty.''],
      raised = None\<rparr>
   \<and> (\<forall>label v. Metric label v \<notin> set (screen (display_stats (s\<lparr>library := JArr []\<rparr>))))"
  by (simp add: display_stats_def)

lemma percent_2_of_3: "format_1f (percent_tenths 2 3) = str ''66.7''"
  by code_simp

text \<open>
  C7. On a store of three records whose \<^verbatim>\<open>read\<close> values are \<^verbatim>\<open>True\<close>, \<^verbatim>\<open>True\<close> and
  \<^verbatim>\<open>False\<close>, the metrics shown are total 3, read 2 and percentage \<^verbatim>\<open>66.7%\<close>, the quotient
  rounded to one decimal.
\<close>

theorem display_stats_two_of_three:
  assumes "library s = JArr [b1, b2, b3]"
    and "subscript b1 (str ''read'') = Inr (JBool True)"
    and "subscript b2 (str ''read'') = Inr (JBool True)"
    and "subscript b3 (str ''read'') = Inr (JBool False)"
  shows "take 4 (screen (display_stats s)) =
           [Header ''Library Statistics'',
            Metric ''Total Books'' (JInt 3),
            Metric ''Books Read'' (JInt 2),
            Metric ''Percentage Read'' (JStr (str ''66.7%''))]"
proof -
  have pct: "format_1f (percent_tenths (Suc (Suc 0)) (Suc (Suc (Suc 0)))) = str ''66.7''"
    using percent_2_of_3 by (simp only: numeral_2_eq_2 numeral_3_eq_3)
  show ?thesis
    using assms pct by (simp add: display_stats_def Let_def split: sum.splits)
qed

theorem display_stats_two_of_three_witness:
  "take 4 (screen (display_stats (session (JArr [hobbit, hobbit, dune])))) =
           [Header ''Library Statistics'',
            Metric ''Total Books'' (JInt 3),
            Metric ''Books Read'' (JInt 2),
            Metric ''Percentage Read'' (JStr (str ''66.7%''))]"
  using display_stats_two_of_three [of "session (JArr [hobbit, hobbit, dune])" hobbit hobbit dune]
  by (simp add: session_def hobbit_def dune_def)

text \<open>The genre loop on string genres: each step finds the key or adds it.\<close>

lemma key_eq_text: "key_number a = None \<Longrightarrow> key_number b = None \<Longrightarrow> key_eq a b = (a = b)"
  by (simp add: key_eq_def)

lemma count_genre_map_of:
  assumes "key_number g = None" and "\<forall>k\<in>fst ` set acc. key_number k = None"
  shows "map_of (count_genre g acc) k =
           (if k = g then Some (case map_of acc g of None \<Rightarrow> 1 | Some n \<Rightarrow> n + 1) else map_of acc k)"
  using assms by (induction acc) (auto simp: key_eq_text)

lemma count_genre_keys:
  assumes "key_number g = None" and "\<forall>k\<in>fst ` set acc. key_number k = None"
  shows "fst ` set (count_genre g acc) = insert g (fst ` set acc)"
  using assms
proof (induction acc)
  case Nil
  then show ?case by simp
next
  case (Cons kv acc)
  obtain k n where kv: "kv = (k, n)" by (cases kv)
  have eq: "key_eq g k = (g = k)" using Cons.prems kv by (simp add: key_eq_text)
  show ?case
  proof (cases "g = k")
    case True
    then show ?thesis using eq kv by auto
  next
    case False
    have "fst ` set (count_genre g acc) = insert g (fst ` set acc)"
      using Cons by simp
    then show ?thesis using False eq kv by (simp add: insert_commute)
  qed
qed

lemma count_genre_distinct:
  assumes "key_number g = None" and "\<forall>k\<in>fst ` set acc. key_number k = None"
    and "distinct (map fst acc)"
  shows "distinct (map fst (count_genre g acc))"
  using assms
proof (induction acc)
  case Nil
  then show ?case by simp
next
  case (Cons kv acc)
  obtain k n where kv: "kv = (k, n)" by (cases kv)
  show ?case
  proof (cases "key_eq g k")
    case True
    then show ?thesis using Cons.prems kv by simp
  next
    case False
    have "fst ` set (count_genre g acc) = insert g (fst ` set acc)"
      using count_genre_keys Cons.prems by simp
    moreover have "g \<noteq> k" using False Cons.prems kv by (simp add: key_eq_text)
    ultimately show ?thesis using Cons kv False by auto
  qed
qed

lemma text_genreD: "text_genre b \<Longrightarrow> \<exists>g. subscript b (str ''genre'') = Inr (JStr g)"
  by (auto simp: text_genre_def split: sum.splits json.splits)

lemma genre_counts_loop:
  assumes "\<forall>b\<in>set bs. text_genre b" and "\<forall>k\<in>fst ` set acc. key_number k = None"
    and "distinct (map fst acc)"
  shows "\<exists>counts. genre_counts bs acc = Inr counts
           \<and> distinct (map fst counts)
           \<and> (\<forall>k. map_of counts k =
                 (if carrying k bs = 0 then map_of acc k
                  else Some (carrying k bs + (case map_of acc k of None \<Rightarrow> 0 | Some n \<Rightarrow> n))))"
  using assms
proof (induction bs arbitrary: acc)
  case Nil
  then show ?case by (simp add: carrying_def)
next
  case (Cons b bs)
  obtain g where g: "subscript b (str ''genre'') = Inr (JStr g)"
    using Cons.prems(1) text_genreD by auto
  let ?acc = "count_genre (JStr g) acc"
  have keys: "\<forall>k\<in>fst ` set ?acc. key_number k = None"
    using count_genre_keys [of "JStr g" acc] Cons.prems(2) by auto
  have dist: "distinct (map fst ?acc)"
    using count_genre_distinct [of "JStr g" acc] Cons.prems(2,3) by simp
  obtain counts where c: "genre_counts bs ?acc = Inr counts" "distinct (map fst counts)"
    "\<forall>k. map_of counts k =
       (if carrying k bs = 0 then map_of ?acc k
        else Some (carrying k bs + (case map_of ?acc k of None \<Rightarrow> 0 | Some n \<Rightarrow> n)))"
    using Cons.IH [OF _ keys dist] Cons.prems(1) by auto
  have m: "\<And>k. map_of ?acc k =
      (if k = JStr g then Some (case map_of acc (JStr g) of None \<Rightarrow> 1 | Some n \<Rightarrow> n + 1) else map_of acc k)"
    using count_genre_map_of [of "JStr g" acc] Cons.prems(2) by simp
  have car: "\<And>k. carrying k (b # bs) = (if k = JStr g then Suc (carrying k bs) else carrying k bs)"
    using g by (auto simp: carrying_def)
  have "genre_counts (b # bs) acc = Inr counts" using g c(1) by simp
  moreover have "\<forall>k. map_of counts k =
                 (if carrying k (b # bs) = 0 then map_of acc k
                  else Some (carrying k (b # bs) + (case map_of acc k of None \<Rightarrow> 0 | Some n \<Rightarrow> n)))"
    using c(3) m car by (auto split: option.splits)
  ultimately show ?case using c(2) by blast
qed

text \<open>
  C8. On a non-empty store of records that each have a \<^verbatim>\<open>read\<close> value and a string as
  \<^verbatim>\<open>genre\<close>, \<^verbatim>\<open>display_stats\<close> ends with the bar chart of the dict the genre loop built. Its
  keys are distinct; every genre value that occurs in the store is mapped to the number
  of records that carry it, and no other value is a key. A record with the empty string
  as genre is counted under the key \<^verbatim>\<open>""\<close>.
\<close>

theorem genre_distribution_counts:
  assumes "library s = JArr bs" and "bs \<noteq> []"
    and "\<forall>b\<in>set bs. text_genre b" and "\<forall>b\<in>set bs. \<not> isl (subscript b (str ''read''))"
  shows "\<exists>counts. genre_counts bs [] = Inr counts
           \<and> last (screen (display_stats s)) = BarChart counts
           \<and> raised (display_stats s) = None
           \<and> distinct (map fst counts)
           \<and> (\<forall>g. map_of counts g = (if carrying g bs = 0 then None else Some (carrying g bs)))
           \<and> ((\<exists>b\<in>set bs. subscript b (str ''genre'') = Inr (JStr [])) \<longrightarrow>
                 map_of counts (JStr []) = Some (carrying (JStr []) bs) \<and> 0 < carrying (JStr []) bs)"
proof -
  obtain counts where c: "genre_counts bs [] = Inr counts" "distinct (map fst counts)"
    "\<forall>k. map_of counts k = (if carrying k bs = 0 then None else Some (carrying k bs))"
    using genre_counts_loop [OF assms(3), of "[]"] by auto
  have "\<exists>n. count_read bs = Inr n"
    using assms(4) by (induction bs) (auto split: sum.splits)
  then obtain n where n: "count_read bs = Inr n" by blast
  have scr: "last (screen (display_stats s)) = BarChart counts" "raised (display_stats s) = None"
    using assms(1,2) c(1) n by (simp_all add: display_stats_def Let_def)
  have e: "(\<exists>b\<in>set bs. subscript b (str ''genre'') = Inr (JStr [])) \<longrightarrow> 0 < carrying (JStr []) bs"
    by (auto simp: carrying_def filter_empty_conv)
  show ?thesis using c scr e by auto
qed

theorem genre_distribution_counts_witness:
  "\<exists>counts. genre_counts [hobbit, untitled, hobbit] [] = Inr counts
      \<and> last (screen (display_stats (session (JArr [hobbit, untitled, hobbit])))) = BarChart counts
      \<and> map_of counts (JStr (str ''Fantasy'')) = Some 2
      \<and> map_of counts (JStr []) = Some 1
      \<and> map_of counts (JStr (str ''Horror'')) = None"
proof -
  have c: "carrying (JStr (str ''Fantasy'')) [hobbit, untitled, hobbit] = 2"
     "carrying (JStr []) [hobbit, untitled, hobbit] = 1"
     "carrying (JStr (str ''Horror'')) [hobbit, untitled, hobbit] = 0"
    by (simp_all add: carrying_def hobbit_def untitled_def)
  show ?thesis
    using genre_distribution_counts [of "session (JArr [hobbit, untitled, hobbit])" "[hobbit, untitled, hobbit]"] c
    by (auto simp: session_def text_genre_def hobbit_def untitled_def)
qed

section \<open>Properties of searching\<close>



















section \<open>Properties of the table\<close>

text \<open>
  The columns of the frame, step by step: every expected column is there before line 127
  selects it.
\<close>

lemma map_of_keyed: "map_of (map (\<lambda>k. (k, f k)) ks) k = (if k \<in> set ks then Some (f k) else None)"
  by (induction ks) auto

lemma column_keys_iff: "k \<in> set (column_keys books) = has_column books k"
  by (auto simp: column_keys_def has_column_def)

lemma map_of_DataFrame:
  "map_of (columns (DataFrame books)) k =
     (if has_column books k then Some (map (frame_cell books k) books) else None)"
  by (simp add: DataFrame_def map_of_keyed column_keys_iff)

lemma nrows_DataFrame: "nrows (DataFrame books) = length books"
  by (simp add: DataFrame_def)

lemma DataFrame_not_empty:
  assumes "books \<noteq> []" and "\<exists>r\<in>set books. r \<noteq> []"
  shows "\<not> frame_empty (DataFrame books)"
proof -
  obtain r where r: "r \<in> set books" "r \<noteq> []" using assms(2) by blast
  obtain kv where kv: "kv \<in> set r" using r(2) by (cases r) auto
  have "fst kv \<in> set (concat (map (map fst) books))" using r(1) kv by force
  then have "concat (map (map fst) books) \<noteq> []" by (metis empty_iff empty_set)
  then have "column_keys books \<noteq> []"
    unfolding column_keys_def by (metis rev_is_Nil_conv remdups_eq_nil_iff)
  then show ?thesis using assms(1) by (simp add: frame_empty_def DataFrame_def)
qed

lemma DataFrame_empty:
  assumes "\<forall>r\<in>set books. r = []"
  shows "frame_empty (DataFrame books)"
proof -
  have "concat (map (map fst) books) = []" using assms by simp
  then have "column_keys books = []" by (simp add: column_keys_def)
  then show ?thesis by (simp add: frame_empty_def DataFrame_def)
qed

lemma map_of_add_missing:
  "map_of (columns (add_missing df c)) k =
     (case map_of (columns df) k of
        Some xs \<Rightarrow> Some xs
      | None \<Rightarrow> if k = c then Some (replicate (nrows df) (Val (JStr []))) else None)"
proof (cases "c \<in> set (map fst (columns df))")
  case True
  then have "map_of (columns df) c \<noteq> None" by (simp add: map_of_eq_None_iff)
  then show ?thesis using True by (auto simp: add_missing_def split: option.splits)
next
  case False
  then show ?thesis
    by (auto simp: add_missing_def map_add_def split: option.splits)
qed

lemma nrows_add_missing: "nrows (add_missing df c) = nrows df"
  by (simp add: add_missing_def)

lemma column_cells:
  "map (column_cell books k) books =
     (if has_column books k then map (frame_cell books k) books
      else replicate (length books) (Val (JStr [])))"
proof (cases "has_column books k")
  case True
  then have "column_cell books k = frame_cell books k"
    by (simp add: fun_eq_iff column_cell_def column_keys_iff)
  then show ?thesis using True by simp
next
  case False
  then have "column_cell books k = (\<lambda>r. Val (JStr []))"
    by (simp add: fun_eq_iff column_cell_def column_keys_iff)
  then show ?thesis using False by (simp add: map_replicate_const)
qed

lemma expected_column:
  assumes "k \<in> set expected"
  shows "map_of (columns (foldl add_missing (DataFrame books) expected)) k =
           Some (map (column_cell books k) books)"
  using assms
  by (auto simp: expected_def map_of_add_missing nrows_add_missing nrows_DataFrame
        map_of_DataFrame column_cells)

lemma expected_columns_present:
  "k \<in> set expected \<Longrightarrow> map_of (columns (foldl add_missing (DataFrame books) expected)) k \<noteq> None"
  by (simp add: expected_column)

lemma nrows_foldl: "nrows (foldl add_missing df ks) = nrows df"
  by (induction ks arbitrary: df) (simp_all add: nrows_add_missing)

text \<open>The frame before line 131 maps the Read column.\<close>

lemma frame_before_map:
  "rename_columns (select_columns (foldl add_missing (DataFrame books) expected) expected) shown =
     (foldl add_missing (DataFrame books) expected)
       \<lparr>columns :=
          [(str ''Title'', map (column_cell books (str ''title'')) books),
           (str ''Author'', map (column_cell books (str ''author'')) books),
           (str ''Year'', map (column_cell books (str ''year'')) books),
           (str ''Genre'', map (column_cell books (str ''genre'')) books),
           (str ''Read'', map (column_cell books (str ''read'')) books)]\<rparr>"
proof -
  have c: "\<And>k. k \<in> set expected \<Longrightarrow>
      map_of (columns (foldl add_missing (DataFrame books) expected)) k =
        Some (map (column_cell books k) books)"
    by (rule expected_column)
  have "columns (select_columns (foldl add_missing (DataFrame books) expected) expected) =
          map (\<lambda>k. (k, map (column_cell books k) books)) expected"
    using c by (simp add: select_columns_def)
  then show ?thesis
    by (simp add: rename_columns_def select_columns_def expected_def shown_def)
qed

text \<open>The mapping of line 131 raises nothing but \<^verbatim>\<open>TypeError\<close>, and only on a list or a dict.\<close>

lemma yes_no_Inl: "yes_no c = Inl e \<Longrightarrow> e = TypeError"
  by (cases c rule: yes_no.cases) auto

lemma map_cells_Inr:
  "\<forall>x\<in>set xs. \<not> isl (f x) \<Longrightarrow> map_cells f xs = Inr (map (\<lambda>x. projr (f x)) xs)"
  by (induction xs) (auto split: sum.splits)

lemma map_cells_Inl:
  assumes "\<exists>x\<in>set xs. isl (f x)" and "\<forall>x e. f x = Inl e \<longrightarrow> e = TypeError"
  shows "map_cells f xs = Inl TypeError"
  using assms(1)
proof (induction xs)
  case Nil
  then show ?case by simp
next
  case (Cons x xs)
  show ?case
  proof (cases "f x")
    case (Inl e)
    then show ?thesis using assms(2) by auto
  next
    case (Inr y)
    then have "\<exists>x\<in>set xs. isl (f x)" using Cons.prems by auto
    then have "map_cells f xs = Inl TypeError" using Cons.IH by simp
    then show ?thesis using Inr by simp
  qed
qed

lemma has_columnI: "r \<in> set books \<Longrightarrow> map_of r k = Some v \<Longrightarrow> has_column books k"
  by (auto simp: has_column_def dest: map_of_SomeD intro!: bexI [of _ r] image_eqI [of _ fst "(k, v)"])

lemma read_cell_unhashable:
  assumes "r \<in> set books" and "unhashable_read r"
  shows "isl (yes_no (column_cell books (str ''read'') r))"
proof -
  obtain v where v: "map_of r (str ''read'') = Some v" "(\<exists>xs. v = JArr xs) \<or> (\<exists>kvs. v = JObj kvs)"
    using assms(2) by (auto simp: unhashable_read_def split: option.splits json.splits)
  have "has_column books (str ''read'')" using has_columnI [OF assms(1) v(1)] .
  then show ?thesis using v by (auto simp: frame_cell_def column_cell_def column_keys_iff)
qed

lemma read_cell_hashable:
  assumes "\<not> unhashable_read r"
  shows "\<not> isl (yes_no (column_cell books (str ''read'') r))"
  using assms
  by (auto simp: unhashable_read_def frame_cell_def column_cell_def split: option.splits json.splits)

text \<open>
  C9, as stated, fails. The second record below lacks the genre the first one has, and its
  Genre cell is \<^verbatim>\<open>NaN\<close>, not the empty string that the Author and Year columns get.
\<close>

theorem display_books_placeholder_counterexample:
  "display_books partial_records =
     Inr [Dataframe
           \<lparr>nrows = 2,
            columns =
              [(str ''Title'', [Val (JStr (str ''A'')), Val (JStr (str ''B''))]),
               (str ''Author'', [Val (JStr []), Val (JStr [])]),
               (str ''Year'', [Val (JStr []), Val (JStr [])]),
               (str ''Genre'', [Val (JStr (str ''x'')), NaN]),
               (str ''Read'', [Val (JStr (str ''Yes'')), Val (JStr (str ''No''))])]\<rparr>]
   \<and> map_of (partial_records ! 1) (str ''genre'') = None
   \<and> NaN \<noteq> Val (JStr [])"
proof (intro conjI)
  show "display_books partial_records =
     Inr [Dataframe
           \<lparr>nrows = 2,
            columns =
              [(str ''Title'', [Val (JStr (str ''A'')), Val (JStr (str ''B''))]),
               (str ''Author'', [Val (JStr []), Val (JStr [])]),
               (str ''Year'', [Val (JStr []), Val (JStr [])]),
               (str ''Genre'', [Val (JStr (str ''x'')), NaN]),
               (str ''Read'', [Val (JStr (str ''Yes'')), Val (JStr (str ''No''))])]\<rparr>]"
    by code_simp
  show "map_of (partial_records ! 1) (str ''genre'') = None"
    by (simp add: partial_records_def)
  show "NaN \<noteq> Val (JStr [])" by simp
qed

text \<open>
  C9, amended. A non-empty list whose records have no key at all shows no table, and a
  list in which some read flag is a list or a dict ends with the \<^verbatim>\<open>TypeError\<close> of line
  131. Otherwise the table is shown: it has one row for each record and the columns Title,
  Author, Year, Genre, Read in this order, whatever the order of the keys in the records.
  In the columns Title, Author, Year and Genre, every row shows the empty string when no
  record of the list has the key; a record that lacks a key another record has shows
  \<^verbatim>\<open>NaN\<close>; and a text is shown as it is. In the column Read, a flag \<^verbatim>\<open>True\<close> or \<^verbatim>\<open>False\<close> is
  shown as \<^verbatim>\<open>Yes\<close> or \<^verbatim>\<open>No\<close>, and a record that lacks the flag another record has shows
  \<^verbatim>\<open>NaN\<close>.
\<close>

theorem display_books_table:
  assumes "books \<noteq> []"
  shows "((\<forall>r\<in>set books. r = []) \<longrightarrow> display_books books = Inr [])
       \<and> ((\<exists>r\<in>set books. unhashable_read r) \<longrightarrow> display_books books = Inl TypeError)
       \<and> ((\<exists>r\<in>set books. r \<noteq> []) \<and> (\<forall>r\<in>set books. \<not> unhashable_read r) \<longrightarrow>
            (\<exists>df. display_books books = Inr [Dataframe df]
               \<and> nrows df = length books
               \<and> map fst (columns df) = [str ''Title'', str ''Author'', str ''Year'', str ''Genre'', str ''Read'']
               \<and> (\<forall>i<length books.
                    \<forall>(k, name)\<in>set [(str ''title'', str ''Title''), (str ''author'', str ''Author''),
                                      (str ''year'', str ''Year''), (str ''genre'', str ''Genre'')].
                      (\<not> has_column books k \<longrightarrow> cell_at df name i = Some (Val (JStr [])))
                    \<and> (has_column books k \<and> map_of (books ! i) k = None \<longrightarrow> cell_at df name i = Some NaN)
                    \<and> (\<forall>t. map_of (books ! i) k = Some (JStr t) \<longrightarrow> cell_at df name i = Some (Val (JStr t))))
               \<and> (\<forall>i<length books.
                      (\<forall>b. map_of (books ! i) (str ''read'') = Some (JBool b) \<longrightarrow>
                           cell_at df (str ''Read'') i = Some (Val (JStr (if b then str ''Yes'' else str ''No''))))
                    \<and> (has_column books (str ''read'') \<and> map_of (books ! i) (str ''read'') = None \<longrightarrow>
                           cell_at df (str ''Read'') i = Some NaN))))"
proof (intro conjI impI)
  assume "\<forall>r\<in>set books. r = []"
  then show "display_books books = Inr []"
    using assms DataFrame_empty by (simp add: display_books_def)
next
  let ?read = "map (column_cell books (str ''read'')) books"
  assume u: "\<exists>r\<in>set books. unhashable_read r"
  then obtain r where r: "r \<in> set books" "unhashable_read r" by blast
  then have "r \<noteq> []" by (auto simp: unhashable_read_def)
  then have ne: "\<not> frame_empty (DataFrame books)"
    using DataFrame_not_empty [OF assms] r(1) by blast
  have "column_cell books (str ''read'') r \<in> set ?read"
    using r(1) by simp
  then have "\<exists>c\<in>set ?read. isl (yes_no c)"
    using read_cell_unhashable [OF r] by blast
  then have "map_cells yes_no ?read = Inl TypeError"
    using map_cells_Inl [of ?read yes_no] yes_no_Inl by blast
  then show "display_books books = Inl TypeError"
    using assms ne by (simp add: display_books_def Let_def frame_before_map)
next
  let ?cell = "column_cell books"
  let ?read = "map (?cell (str ''read'')) books"
  let ?df = "(foldl add_missing (DataFrame books) expected)
       \<lparr>columns :=
          [(str ''Title'', map (?cell (str ''title'')) books),
           (str ''Author'', map (?cell (str ''author'')) books),
           (str ''Year'', map (?cell (str ''year'')) books),
           (str ''Genre'', map (?cell (str ''genre'')) books),
           (str ''Read'', map (\<lambda>c. projr (yes_no c)) ?read)]\<rparr>"
  assume a: "(\<exists>r\<in>set books. r \<noteq> []) \<and> (\<forall>r\<in>set books. \<not> unhashable_read r)"
  have ne: "\<not> frame_empty (DataFrame books)"
    using DataFrame_not_empty [OF assms] a by blast
  have "\<forall>c\<in>set ?read. \<not> isl (yes_no c)"
    using read_cell_hashable a by auto
  then have m: "map_cells yes_no ?read = Inr (map (\<lambda>c. projr (yes_no c)) ?read)"
    by (rule map_cells_Inr)
  have tab: "display_books books = Inr [Dataframe ?df]"
    using assms ne m by (simp add: display_books_def Let_def frame_before_map)
  have n: "nrows ?df = length books"
    by (simp add: nrows_foldl nrows_DataFrame)
  have names: "map fst (columns ?df) = [str ''Title'', str ''Author'', str ''Year'', str ''Genre'', str ''Read'']"
    by simp
  have plain: "\<And>i k name. i < length books \<Longrightarrow>
      (k, name) \<in> set [(str ''title'', str ''Title''), (str ''author'', str ''Author''),
                        (str ''year'', str ''Year''), (str ''genre'', str ''Genre'')] \<Longrightarrow>
      cell_at ?df name i = Some (?cell k (books ! i))"
    by (auto simp: cell_at_def)
  have p1: "\<forall>i<length books.
              \<forall>(k, name)\<in>set [(str ''title'', str ''Title''), (str ''author'', str ''Author''),
                                (str ''year'', str ''Year''), (str ''genre'', str ''Genre'')].
                (\<not> has_column books k \<longrightarrow> cell_at ?df name i = Some (Val (JStr [])))
              \<and> (has_column books k \<and> map_of (books ! i) k = None \<longrightarrow> cell_at ?df name i = Some NaN)
              \<and> (\<forall>t. map_of (books ! i) k = Some (JStr t) \<longrightarrow> cell_at ?df name i = Some (Val (JStr t)))"
  proof (intro allI impI ballI)
    fix i kn
    assume i: "i < length books"
      and kn: "kn \<in> set [(str ''title'', str ''Title''), (str ''author'', str ''Author''),
                          (str ''year'', str ''Year''), (str ''genre'', str ''Genre'')]"
    obtain k name where e: "kn = (k, name)" by (cases kn)
    have c: "cell_at ?df name i = Some (?cell k (books ! i))"
      using plain [OF i] kn e by blast
    have h: "\<And>v. map_of (books ! i) k = Some v \<Longrightarrow> has_column books k"
      using has_columnI [of "books ! i" books k] i by simp
    have "(\<not> has_column books k \<longrightarrow> cell_at ?df name i = Some (Val (JStr [])))
        \<and> (has_column books k \<and> map_of (books ! i) k = None \<longrightarrow> cell_at ?df name i = Some NaN)
        \<and> (\<forall>t. map_of (books ! i) k = Some (JStr t) \<longrightarrow> cell_at ?df name i = Some (Val (JStr t)))"
      unfolding c using h by (auto simp: frame_cell_def column_cell_def column_keys_iff)
    then show "case kn of (k, name) \<Rightarrow>
        (\<not> has_column books k \<longrightarrow> cell_at ?df name i = Some (Val (JStr [])))
        \<and> (has_column books k \<and> map_of (books ! i) k = None \<longrightarrow> cell_at ?df name i = Some NaN)
        \<and> (\<forall>t. map_of (books ! i) k = Some (JStr t) \<longrightarrow> cell_at ?df name i = Some (Val (JStr t)))"
      using e by simp
  qed
  have p2: "\<forall>i<length books.
               (\<forall>b. map_of (books ! i) (str ''read'') = Some (JBool b) \<longrightarrow>
                    cell_at ?df (str ''Read'') i = Some (Val (JStr (if b then str ''Yes'' else str ''No''))))
             \<and> (has_column books (str ''read'') \<and> map_of (books ! i) (str ''read'') = None \<longrightarrow>
                    cell_at ?df (str ''Read'') i = Some NaN)"
  proof (intro allI impI)
    fix i assume i: "i < length books"
    have c: "cell_at ?df (str ''Read'') i = Some (projr (yes_no (?cell (str ''read'') (books ! i))))"
      using i by (simp add: cell_at_def)
    have h: "\<And>v. map_of (books ! i) (str ''read'') = Some v \<Longrightarrow> has_column books (str ''read'')"
      using has_columnI [of "books ! i" books "str ''read''"] i by simp
    show "(\<forall>b. map_of (books ! i) (str ''read'') = Some (JBool b) \<longrightarrow>
                    cell_at ?df (str ''Read'') i = Some (Val (JStr (if b then str ''Yes'' else str ''No''))))
             \<and> (has_column books (str ''read'') \<and> map_of (books ! i) (str ''read'') = None \<longrightarrow>
                    cell_at ?df (str ''Read'') i = Some NaN)"
      unfolding c using h by (auto simp: frame_cell_def column_cell_def column_keys_iff)
  qed
  show "\<exists>df. display_books books = Inr [Dataframe df]
               \<and> nrows df = length books
               \<and> map fst (columns df) = [str ''Title'', str ''Author'', str ''Year'', str ''Genre'', str ''Read'']
               \<and> (\<forall>i<length books.
                    \<forall>(k, name)\<in>set [(str ''title'', str ''Title''), (str ''author'', str ''Author''),
                                      (str ''year'', str ''Year''), (str ''genre'', str ''Genre'')].
                      (\<not> has_column books k \<longrightarrow> cell_at df name i = Some (Val (JStr [])))
                    \<and> (has_column books k \<and> map_of (books ! i) k = None \<longrightarrow> cell_at df name i = Some NaN)
                    \<and> (\<forall>t. map_of (books ! i) k = Some (JStr t) \<longrightarrow> cell_at df name i = Some (Val (JStr t))))
               \<and> (\<forall>i<length books.
                      (\<forall>b. map_of (books ! i) (str ''read'') = Some (JBool b) \<longrightarrow>
                           cell_at df (str ''Read'') i = Some (Val (JStr (if b then str ''Yes'' else str ''No''))))
                    \<and> (has_column books (str ''read'') \<and> map_of (books ! i) (str ''read'') = None \<longrightarrow>
                           cell_at df (str ''Read'') i = Some NaN))"
    using tab n names p1 p2 by (intro exI [of _ ?df] conjI)
qed

theorem display_books_table_witness:
  "(\<exists>df. display_books partial_records = Inr [Dataframe df]
       \<and> nrows df = 2
       \<and> map fst (columns df) = [str ''Title'', str ''Author'', str ''Year'', str ''Genre'', str ''Read'']
       \<and> cell_at df (str ''Title'') 0 = Some (Val (JStr (str ''A'')))
       \<and> cell_at df (str ''Author'') 1 = Some (Val (JStr []))
       \<and> cell_at df (str ''Genre'') 0 = Some (Val (JStr (str ''x'')))
       \<and> cell_at df (str ''Genre'') 1 = Some NaN
       \<and> cell_at df (str ''Read'') 0 = Some (Val (JStr (str ''Yes'')))
       \<and> cell_at df (str ''Read'') 1 = Some (Val (JStr (str ''No''))))
   \<and> display_books listed_records = Inl TypeError
   \<and> display_books [[], []] = Inr []"
proof -
  have ne: "partial_records \<noteq> []" "listed_records \<noteq> []" "[[], []] \<noteq> ([] :: (str \<times> json) list list)"
    by (simp_all add: partial_records_def listed_records_def)
  have h: "(\<exists>r\<in>set partial_records. r \<noteq> []) \<and> (\<forall>r\<in>set partial_records. \<not> unhashable_read r)"
    by (simp add: partial_records_def unhashable_read_def)
  have len: "length partial_records = 2" by (simp add: partial_records_def)
  have rows: "partial_records ! 0 = [(str ''read'', JBool True), (str ''title'', JStr (str ''A'')), (str ''genre'', JStr (str ''x''))]"
      "partial_records ! 1 = [(str ''title'', JStr (str ''B'')), (str ''read'', JBool False)]"
    by (simp_all add: partial_records_def)
  have cols: "has_column partial_records (str ''genre'')" "\<not> has_column partial_records (str ''author'')"
    by (simp_all add: partial_records_def has_column_def)
  from display_books_table [OF ne(1), THEN conjunct2, THEN conjunct2, THEN mp, OF h]
  obtain df where df:
    "display_books partial_records = Inr [Dataframe df]
     \<and> nrows df = length partial_records
     \<and> map fst (columns df) = [str ''Title'', str ''Author'', str ''Year'', str ''Genre'', str ''Read'']
     \<and> (\<forall>i<length partial_records.
           \<forall>(k, name)\<in>set [(str ''title'', str ''Title''), (str ''author'', str ''Author''),
                             (str ''year'', str ''Year''), (str ''genre'', str ''Genre'')].
             (\<not> has_column partial_records k \<longrightarrow> cell_at df name i = Some (Val (JStr [])))
           \<and> (has_column partial_records k \<and> map_of (partial_records ! i) k = None \<longrightarrow> cell_at df name i = Some NaN)
           \<and> (\<forall>t. map_of (partial_records ! i) k = Some (JStr t) \<longrightarrow> cell_at df name i = Some (Val (JStr t))))
     \<and> (\<forall>i<length partial_records.
             (\<forall>b. map_of (partial_records ! i) (str ''read'') = Some (JBool b) \<longrightarrow>
                  cell_at df (str ''Read'') i = Some (Val (JStr (if b then str ''Yes'' else str ''No''))))
           \<and> (has_column partial_records (str ''read'') \<and> map_of (partial_records ! i) (str ''read'') = None \<longrightarrow>
                  cell_at df (str ''Read'') i = Some NaN))"
    by (rule exE)
  note shown_table = df [THEN conjunct1]
  note rows_shown = df [THEN conjunct2, THEN conjunct1]
  note names = df [THEN conjunct2, THEN conjunct2, THEN conjunct1]
  note plain = df [THEN conjunct2, THEN conjunct2, THEN conjunct2, THEN conjunct1]
  note flag = df [THEN conjunct2, THEN conjunct2, THEN conjunct2, THEN conjunct2]
  have p0: "0 < length partial_records" and p1: "1 < length partial_records" using len by simp_all
  have c1: "cell_at df (str ''Title'') 0 = Some (Val (JStr (str ''A'')))"
    using plain [rule_format, OF p0, of "(str ''title'', str ''Title'')"] rows by simp
  have c2: "cell_at df (str ''Author'') 1 = Some (Val (JStr []))"
    using plain [rule_format, OF p1, of "(str ''author'', str ''Author'')"] cols by simp
  have c3: "cell_at df (str ''Genre'') 0 = Some (Val (JStr (str ''x'')))"
    using plain [rule_format, OF p0, of "(str ''genre'', str ''Genre'')"] rows by simp
  have c4: "cell_at df (str ''Genre'') 1 = Some NaN"
    using plain [rule_format, OF p1, of "(str ''genre'', str ''Genre'')"] rows cols by simp
  have c5: "cell_at df (str ''Read'') 0 = Some (Val (JStr (str ''Yes'')))"
    using flag [THEN spec, of 0] p0 rows by auto
  have c6: "cell_at df (str ''Read'') 1 = Some (Val (JStr (str ''No'')))"
    using flag [THEN spec, of 1] p1 rows by auto
  have a: "\<exists>df. display_books partial_records = Inr [Dataframe df]
       \<and> nrows df = 2
       \<and> map fst (columns df) = [str ''Title'', str ''Author'', str ''Year'', str ''Genre'', str ''Read'']
       \<and> cell_at df (str ''Title'') 0 = Some (Val (JStr (str ''A'')))
       \<and> cell_at df (str ''Author'') 1 = Some (Val (JStr []))
       \<and> cell_at df (str ''Genre'') 0 = Some (Val (JStr (str ''x'')))
       \<and> cell_at df (str ''Genre'') 1 = Some NaN
       \<and> cell_at df (str ''Read'') 0 = Some (Val (JStr (str ''Yes'')))
       \<and> cell_at df (str ''Read'') 1 = Some (Val (JStr (str ''No'')))"
    using shown_table rows_shown names len c1 c2 c3 c4 c5 c6 by (intro exI [of _ df]) simp
  have u: "\<exists>r\<in>set listed_records. unhashable_read r"
    by (simp add: listed_records_def unhashable_read_def)
  have b: "display_books listed_records = Inl TypeError"
    using display_books_table [OF ne(2)] u by blast
  have c: "display_books [[], []] = Inr []"
    using display_books_table [OF ne(3)] by simp
  show ?thesis using a b c by (intro conjI)
qed

section \<open>Properties of loading at startup\<close>





end
